theory Spec2Isabelle
  imports Complex_Main
begin

text \<open>
  A model of \<^verbatim>\<open>gdeep/visualisation/visualiser.py\<close>: the class \<^verbatim>\<open>Visualiser\<close>, its
  methods as transformers of an explicit state, and the tensor operations of
  \<^verbatim>\<open>_adjust_tensors_to_plot\<close> on dense tensors. The libraries the class calls (the model
  extractor, the topology and plotting functions, the dashboard writer) are parameters
  or recorded calls.
\<close>

section \<open>Python exceptions\<close>

text \<open>
  The exception classes that the modelled code of \<^verbatim>\<open>visualiser.py\<close> can raise.
  A raising call is the value \<open>Inl e\<close>, a returning call is \<open>Inr v\<close>.
\<close>

datatype py_error = StopIteration | IndexError | RuntimeError | TypeError | ValueError

definition bind_err :: "py_error + 'a \<Rightarrow> ('a \<Rightarrow> py_error + 'b) \<Rightarrow> py_error + 'b" where
  "bind_err r f = (case r of Inl e \<Rightarrow> Inl e | Inr v \<Rightarrow> f v)"

section \<open>Tensors\<close>

text \<open>
  A dense tensor is its shape and its elements in row-major order, as a contiguous
  \<^verbatim>\<open>torch.Tensor\<close> or \<^verbatim>\<open>numpy.ndarray\<close> stores them. The element type is a parameter.
\<close>

record 'a tensor =
  shape :: "nat list"
  data :: "'a list"

definition wf_tensor :: "'a tensor \<Rightarrow> bool" where
  "wf_tensor t = (length (data t) = prod_list (shape t))"

text \<open>All multi-indices of a shape, in row-major order.\<close>

fun indices :: "nat list \<Rightarrow> nat list list" where
  "indices [] = [[]]"
| "indices (n # ns) = concat (map (\<lambda>i. map ((#) i) (indices ns)) [0..<n])"

text \<open>The row-major offset of a multi-index.\<close>

fun flat_index :: "nat list \<Rightarrow> nat list \<Rightarrow> nat" where
  "flat_index (n # ns) (i # is) = i * prod_list ns + flat_index ns is"
| "flat_index _ _ = 0"

text \<open>\<open>valid_index sh idx\<close>: \<open>idx\<close> addresses an element of a tensor of shape \<open>sh\<close>.\<close>

definition valid_index :: "nat list \<Rightarrow> nat list \<Rightarrow> bool" where
  "valid_index sh idx = list_all2 (\<lambda>i n. i < n) idx sh"

text \<open>\<open>elem_at t idx\<close> is the element \<^verbatim>\<open>t[idx]\<close>, for a valid index.\<close>

definition elem_at :: "'a tensor \<Rightarrow> nat list \<Rightarrow> 'a" where
  "elem_at t idx = data t ! flat_index (shape t) idx"

text \<open>The tensor of shape \<open>sh\<close> whose element at \<open>idx\<close> is \<open>f idx\<close>.\<close>

definition tabulate :: "nat list \<Rightarrow> (nat list \<Rightarrow> 'a) \<Rightarrow> 'a tensor" where
  "tabulate sh f = \<lparr>shape = sh, data = map f (indices sh)\<rparr>"

subsection \<open>Indexing\<close>

text \<open>
  \<^verbatim>\<open>tensor[0, :, :, :]\<close> on a tensor of four axes: index 0 of the leading axis, which
  raises \<^verbatim>\<open>IndexError\<close> when that axis is empty.
\<close>

definition index_0 :: "'a tensor \<Rightarrow> py_error + 'a tensor" where
  "index_0 t =
     (if hd (shape t) = 0 then Inl IndexError
      else Inr (tabulate (tl (shape t)) (\<lambda>idx. elem_at t (0 # idx))))"

text \<open>
  \<^verbatim>\<open>tensor[0, :, :, :, 0]\<close> on a tensor of five or more axes: index 0 of axis 0 and of
  axis 4; axes 1 to 3 and every axis after the fifth are kept.
\<close>

definition index_0_0 :: "'a tensor \<Rightarrow> py_error + 'a tensor" where
  "index_0_0 t =
     (if shape t ! 0 = 0 \<or> shape t ! 4 = 0 then Inl IndexError
      else Inr (tabulate (take 3 (tl (shape t)) @ drop 5 (shape t))
                  (\<lambda>idx. elem_at t (0 # take 3 idx @ 0 # drop 3 idx))))"

subsection \<open>\<^verbatim>\<open>torch.argsort\<close> and \<^verbatim>\<open>Tensor.permute\<close>\<close>

text \<open>
  \<^verbatim>\<open>torch.argsort\<close> of a one-dimensional tensor, ascending. Equal keys keep their
  order (the sort of the CPU kernel is stable).
\<close>

definition argsort :: "nat list \<Rightarrow> nat list" where
  "argsort xs = map snd (sort_key fst (zip xs [0..<length xs]))"

text \<open>The position of the first occurrence of \<open>a\<close> in \<open>p\<close>.\<close>

definition position :: "nat list \<Rightarrow> nat \<Rightarrow> nat" where
  "position p a = length (takeWhile (\<lambda>x. x \<noteq> a) p)"

text \<open>
  \<^verbatim>\<open>tensor.permute(*dims)\<close>: axis \<open>k\<close> of the result is axis \<open>dims ! k\<close> of the
  argument. Without any argument the call is a \<^verbatim>\<open>TypeError\<close>; a list that is not a
  permutation of the axes is a \<^verbatim>\<open>RuntimeError\<close>.
\<close>

definition permute :: "nat list \<Rightarrow> 'a tensor \<Rightarrow> py_error + 'a tensor" where
  "permute dims t =
     (if dims = [] then Inl TypeError
      else if length dims \<noteq> length (shape t) \<or> \<not> distinct dims
              \<or> \<not> list_all (\<lambda>a. a < length (shape t)) dims then Inl RuntimeError
      else Inr (tabulate (map (\<lambda>a. shape t ! a) dims)
                  (\<lambda>idx. elem_at t (map (\<lambda>a. idx ! position dims a) [0..<length dims]))))"

subsection \<open>Slice assignment and slicing\<close>

text \<open>
  The value of a slice assignment is broadcast to the shape of the slice: leading axes
  of extent 1 are dropped from the value, then its axes are aligned with the last axes
  of the slice, and each must have the extent of the slice's axis or extent 1.
\<close>

definition broadcastable :: "nat list \<Rightarrow> nat list \<Rightarrow> bool" where
  "broadcastable src dst =
     (length src \<le> length dst \<and>
      list_all2 (\<lambda>s d. s = d \<or> s = 1) src (drop (length dst - length src) dst))"

definition broadcast_at :: "'a tensor \<Rightarrow> nat list \<Rightarrow> nat list \<Rightarrow> 'a" where
  "broadcast_at src dst idx =
     (let sh = dropWhile (\<lambda>n. n = 1) (shape src);
          k = length (shape src) - length sh
      in elem_at src (replicate k 0 @
           map2 (\<lambda>s i. if s = 1 then 0 else i) sh (drop (length dst - length sh) idx)))"

text \<open>
  \<^verbatim>\<open>temporary = torch.zeros((s0, s1, 3)); temporary[:, :, :2] = tensor\<close>.
  \<open>zero\<close> is the element 0.0 and \<open>cast\<close> the conversion of an element to the default
  floating-point type of \<^verbatim>\<open>torch.zeros\<close>, which the assignment applies.
\<close>

definition zeros_with :: "'a \<Rightarrow> ('a \<Rightarrow> 'a) \<Rightarrow> 'a tensor \<Rightarrow> py_error + 'a tensor" where
  "zeros_with zero cast t =
     (if length (shape t) < 2 then Inl IndexError
      else let dst = [shape t ! 0, shape t ! 1, 2]
           in if \<not> broadcastable (dropWhile (\<lambda>n. n = 1) (shape t)) dst then Inl RuntimeError
              else Inr (tabulate [shape t ! 0, shape t ! 1, 3]
                          (\<lambda>idx. if idx ! 2 < 2 then cast (broadcast_at t dst idx) else zero)))"

text \<open>\<^verbatim>\<open>tensor[:, :, :4]\<close>: at most the first four entries of the third axis.\<close>

definition slice_4 :: "'a tensor \<Rightarrow> py_error + 'a tensor" where
  "slice_4 t =
     (if length (shape t) < 3 then Inl IndexError
      else Inr (tabulate ((shape t)[2 := min 4 (shape t ! 2)]) (elem_at t)))"

section \<open>\<^verbatim>\<open>Visualiser._adjust_tensors_to_plot\<close>\<close>

definition adjust_tensors_to_plot ::
  "'a \<Rightarrow> ('a \<Rightarrow> 'a) \<Rightarrow> 'a tensor \<Rightarrow> py_error + 'a tensor" where
  "adjust_tensors_to_plot zero cast tensor =
     bind_err (if length (shape tensor) = 4 then index_0 tensor
               else if length (shape tensor) > 4 then index_0_0 tensor
               else Inr tensor) (\<lambda>tensor.
     let list_of_permutation = rev (argsort (shape tensor)) in
     bind_err (permute list_of_permutation tensor) (\<lambda>tensor.
     bind_err (if last (shape tensor) = 2 then zeros_with zero cast tensor
               else slice_4 tensor) (\<lambda>tensor.
     permute [1, 0, 2] tensor)))"

text \<open>
  Two tensors of the same number of axes agree on the first slice: both have an index 0
  on the leading axis and the same entries there; from five axes on, the comparison is
  further restricted to index 0 of the last axis.
\<close>

definition same_slice :: "'a tensor \<Rightarrow> 'a tensor \<Rightarrow> bool" where
  "same_slice t u =
     (length (shape u) = length (shape t) \<and> 0 < hd (shape t) \<and> 0 < hd (shape u) \<and>
      (if length (shape t) = 4
       then tl (shape u) = tl (shape t) \<and>
            (\<forall>idx \<in> set (indices (tl (shape t))). elem_at u (0 # idx) = elem_at t (0 # idx))
       else 0 < last (shape t) \<and> 0 < last (shape u) \<and>
            butlast (tl (shape u)) = butlast (tl (shape t)) \<and>
            (\<forall>idx \<in> set (indices (butlast (tl (shape t)))).
               elem_at u (0 # idx @ [0]) = elem_at t (0 # idx @ [0]))))"

section \<open>More tensor operations\<close>

text \<open>
  \<^verbatim>\<open>t[0]\<close>: the first entry along the leading axis. A tensor without axes and a
  tensor whose leading axis is empty raise \<^verbatim>\<open>IndexError\<close>.
\<close>

definition getitem_0 :: "'a tensor \<Rightarrow> py_error + 'a tensor" where
  "getitem_0 t =
     (case shape t of
        [] \<Rightarrow> Inl IndexError
      | n # ns \<Rightarrow> if n = 0 then Inl IndexError
                 else Inr (tabulate ns (\<lambda>idx. elem_at t (0 # idx))))"

text \<open>\<^verbatim>\<open>t[:100]\<close>: at most the first 100 entries along the leading axis.\<close>

definition slice_100 :: "'a tensor \<Rightarrow> py_error + 'a tensor" where
  "slice_100 t =
     (case shape t of
        [] \<Rightarrow> Inl IndexError
      | n # ns \<Rightarrow> Inr (tabulate (min 100 n # ns) (elem_at t)))"

definition numel :: "'a tensor \<Rightarrow> nat" where
  "numel t = prod_list (shape t)"

text \<open>
  \<^verbatim>\<open>t.item()\<close>: the only element of a tensor of one element. On any other tensor the
  call raises the \<^verbatim>\<open>ValueError\<close> that \<^verbatim>\<open>plot_data_model\<close> catches.
\<close>

definition item :: "'a tensor \<Rightarrow> py_error + 'a" where
  "item t = (if numel t = 1 then Inr (hd (data t)) else Inl ValueError)"

text \<open>
  \<^verbatim>\<open>torch.stack(ts)\<close>: a new leading axis over tensors of one shape. An empty list and
  tensors of different shapes raise \<^verbatim>\<open>RuntimeError\<close>.
\<close>

definition stack :: "'a tensor list \<Rightarrow> py_error + 'a tensor" where
  "stack ts =
     (case ts of
        [] \<Rightarrow> Inl RuntimeError
      | t # _ \<Rightarrow> if list_all (\<lambda>u. shape u = shape t) ts
                then Inr \<lparr>shape = length ts # shape t, data = concat (map data ts)\<rparr>
                else Inl RuntimeError)"

text \<open>
  \<^verbatim>\<open>torch.cat(ts)\<close> along axis 0. The tensors must have at least one axis and agree on
  all axes but the first; one-dimensional empty tensors are skipped. An empty list raises
  \<^verbatim>\<open>RuntimeError\<close>.
\<close>

definition cat :: "'a tensor list \<Rightarrow> py_error + 'a tensor" where
  "cat ts =
     (if ts = [] then Inl RuntimeError
      else case filter (\<lambda>u. shape u \<noteq> [0]) ts of
        [] \<Rightarrow> Inr (hd ts)
      | t # us \<Rightarrow>
          if shape t \<noteq> [] \<and> list_all (\<lambda>u. shape u \<noteq> [] \<and> tl (shape u) = tl (shape t)) us
          then Inr \<lparr>shape = sum_list (map (\<lambda>u. hd (shape u)) (t # us)) # tl (shape t),
                    data = concat (map data (t # us))\<rparr>
          else Inl RuntimeError)"

text \<open>
  \<^verbatim>\<open>t.view(*pre, -1, *post)\<close> and \<^verbatim>\<open>t.reshape(*pre, -1, *post)\<close> of a contiguous
  tensor: the extent written \<^verbatim>\<open>-1\<close> is inferred. The call raises \<^verbatim>\<open>RuntimeError\<close>
  when the given extents multiply to 0 or do not divide the number of elements.
\<close>

definition view_infer :: "nat list \<Rightarrow> nat list \<Rightarrow> 'a tensor \<Rightarrow> py_error + 'a tensor" where
  "view_infer pre post t =
     (let newsize = prod_list (pre @ post)
      in if 0 < newsize \<and> numel t mod newsize = 0
         then Inr \<lparr>shape = pre @ [numel t div newsize] @ post, data = data t\<rparr>
         else Inl RuntimeError)"

text \<open>\<^verbatim>\<open>str(n)\<close> of a natural number: its decimal digits.\<close>

fun str_nat :: "nat \<Rightarrow> string" where
  "str_nat n =
     (if n < 10 then [char_of (48 + n)]
      else str_nat (n div 10) @ [char_of (48 + n mod 10)])"

declare str_nat.simps [simp del]

text \<open>\<^verbatim>\<open>str(v)\<close> of an integer.\<close>

definition str_int :: "int \<Rightarrow> string" where
  "str_int v = (if v < 0 then CHR ''-'' # str_nat (nat (- v)) else str_nat (nat v))"

section \<open>The visualiser and its collaborators\<close>

text \<open>
  A data loader: the batches an iteration yields, each a pair of an input batch and a
  label batch, and the tensor \<^verbatim>\<open>loader.dataset.data\<close>.
\<close>

record 'a dataloader =
  batches :: "('a tensor \<times> 'a tensor) list"
  dataset_data :: "'a tensor"

text \<open>The records a \<^verbatim>\<open>SummaryWriter\<close> receives, with the arguments of each call.\<close>

datatype 'a metadata = Strings "string list" | Tensors "'a tensor list"

datatype ('a, 'f) entry =
    Add_graph "'a tensor"
  | Add_image string "'a tensor" "nat option" "string option"
  | Add_images string "'a tensor" string
  | Add_embedding "'a tensor" "'a metadata option" "'a tensor option" string nat
  | Add_figure string 'f
  | Flush

text \<open>
  The state of a \<^verbatim>\<open>Visualiser\<close>: the data loaders and the writer of its pipeline and
  the cache \<^verbatim>\<open>self.persistence_diagrams\<close>. Two more fields observe calls that leave
  the class: the inputs of every \<^verbatim>\<open>ModelExtractor.get_activations\<close> call and the
  figures shown with \<^verbatim>\<open>show()\<close>.
\<close>

record ('a, 'f) visualiser =
  dataloaders :: "'a dataloader list"
  writer :: "('a, 'f) entry list"
  persistence_diagrams :: "'a tensor list option"
  activation_calls :: "'a tensor list"
  shown :: "'f list"

text \<open>\<^verbatim>\<open>Compactification(...)\<close> and \<^verbatim>\<open>MDS(...)\<close> with their keyword arguments.\<close>

record compactification =
  precision :: rat
  n_samples :: nat
  epsilon :: rat
  n_features :: nat
  n_epochs :: nat

record mds =
  n_components :: nat
  dissimilarity :: string

text \<open>The result object of an \<^verbatim>\<open>Interpreter\<close>, as far as the visualiser reads it.\<close>

record 'a interpreter =
  interpreter_method :: string
  interpreter_x :: "'a tensor"
  attribution :: "'a tensor"

text \<open>
  What the visualiser calls outside this file, as parameters: the model extractor of the
  pipeline's model and loss function, the topology and plotting libraries, and the
  conversions of elements (\<open>to_dtype e\<close> converts an element to the type of the
  elements of the tensor \<open>e\<close>; \<open>zero_elem\<close> and \<open>to_float\<close> are the 0.0 and the
  conversion of \<^verbatim>\<open>torch.zeros\<close>; \<open>str_of\<close> is \<^verbatim>\<open>str\<close> on a Python scalar).
\<close>

record ('a, 'f) collaborators =
  get_activations :: "'a tensor \<Rightarrow> 'a tensor list"
  get_decision_boundary :: "'a tensor \<Rightarrow> 'a tensor"
  persistence_diagrams_of_activations :: "'a tensor list \<Rightarrow> 'a tensor list"
  plot_diagram :: "'a tensor \<Rightarrow> 'f"
  plotly2tensor :: "'f \<Rightarrow> 'a tensor"
  make_grid :: "'a tensor \<Rightarrow> 'a tensor"
  betti_curve :: "'a tensor list \<Rightarrow> 'a tensor \<times> 'a tensor"
  plot_betti_surfaces :: "'a tensor \<Rightarrow> 'a tensor \<Rightarrow> int list option \<Rightarrow> 'f list"
  distance_entry :: "compactification \<Rightarrow> nat \<Rightarrow> nat \<Rightarrow> 'a"
  final_labels :: "compactification \<Rightarrow> 'a tensor"
  fit_transform :: "mds \<Rightarrow> 'a tensor \<Rightarrow> 'a tensor"
  visualize_text :: "'a interpreter \<Rightarrow> 'f"
  screenshot_png2tensor :: "'f \<Rightarrow> 'a tensor"
  visualize_image_attr_multiple :: "'a interpreter \<Rightarrow> py_error + 'f"
  feature_importance_figure :: "'a interpreter \<Rightarrow> py_error + 'f"
  visualize_image_attr :: "'a tensor \<Rightarrow> 'f"
  to_dtype :: "'a tensor \<Rightarrow> 'a \<Rightarrow> 'a"
  to_float :: "'a \<Rightarrow> 'a"
  zero_elem :: 'a
  str_of :: "'a \<Rightarrow> string"

text \<open>
  Modelled from the spec: \<^verbatim>\<open>Compactification.create_final_distance_matrix\<close>, whose
  source is not part of the files at hand. The spec gives the dimensions of the distance
  matrix, (n_samples \<times> n_samples); its entries and the labels are parameters.
\<close>

definition create_final_distance_matrix ::
  "('a, 'f) collaborators \<Rightarrow> compactification \<Rightarrow> 'a tensor \<times> 'a tensor" where
  "create_final_distance_matrix c cc =
     (tabulate [n_samples cc, n_samples cc] (\<lambda>idx. distance_entry c cc (idx ! 0) (idx ! 1)),
      final_labels c cc)"

subsection \<open>Methods as state transformers\<close>

text \<open>
  A method takes the visualiser and returns its result, or the exception it raises,
  together with the visualiser as the call leaves it: what was written before an
  exception stays written.
\<close>

type_synonym ('a, 'f, 'r) action =
  "('a, 'f) visualiser \<Rightarrow> (py_error + 'r) \<times> ('a, 'f) visualiser"

definition return :: "'r \<Rightarrow> ('a, 'f, 'r) action" where
  "return v s = (Inr v, s)"

definition attempt :: "py_error + 'r \<Rightarrow> ('a, 'f, 'r) action" where
  "attempt r s = (r, s)"

definition and_then ::
  "('a, 'f, 'r) action \<Rightarrow> ('r \<Rightarrow> ('a, 'f, 'q) action) \<Rightarrow> ('a, 'f, 'q) action" where
  "and_then m f s = (case m s of (Inl e, s') \<Rightarrow> (Inl e, s') | (Inr v, s') \<Rightarrow> f v s')"

definition emit :: "('a, 'f) entry \<Rightarrow> ('a, 'f, unit) action" where
  "emit e s = (Inr (), s\<lparr>writer := writer s @ [e]\<rparr>)"

definition show_figures :: "'f list \<Rightarrow> ('a, 'f, unit) action" where
  "show_figures figs s = (Inr (), s\<lparr>shown := shown s @ figs\<rparr>)"

text \<open>\<^verbatim>\<open>self.pipe.dataloaders[0]\<close>.\<close>

definition dataloader_0 :: "('a, 'f, 'a dataloader) action" where
  "dataloader_0 s =
     (case dataloaders s of [] \<Rightarrow> (Inl IndexError, s) | l # _ \<Rightarrow> (Inr l, s))"

text \<open>\<^verbatim>\<open>me.get_activations(inputs)\<close>, with the call recorded.\<close>

definition call_get_activations ::
  "('a, 'f) collaborators \<Rightarrow> 'a tensor \<Rightarrow> ('a, 'f, 'a tensor list) action" where
  "call_get_activations c inputs s =
     (Inr (get_activations c inputs), s\<lparr>activation_calls := activation_calls s @ [inputs]\<rparr>)"

text \<open>\<^verbatim>\<open>inputs.to(example.dtype)\<close> when an example is given.\<close>

definition to_example :: "('a, 'f) collaborators \<Rightarrow> 'a tensor option \<Rightarrow> 'a tensor \<Rightarrow> 'a tensor" where
  "to_example c example inputs =
     (case example of None \<Rightarrow> inputs
      | Some e \<Rightarrow> inputs\<lparr>data := map (to_dtype c e) (data inputs)\<rparr>)"

section \<open>The methods of \<^verbatim>\<open>Visualiser\<close>\<close>

subsection \<open>\<^verbatim>\<open>__init__\<close>\<close>

definition init :: "'a dataloader list \<Rightarrow> ('a, 'f) entry list \<Rightarrow> ('a, 'f) visualiser" where
  "init loaders w =
     \<lparr>dataloaders = loaders, writer = w, persistence_diagrams = None,
      activation_calls = [], shown = []\<rparr>"

subsection \<open>\<^verbatim>\<open>plot_data_model\<close>\<close>

text \<open>
  The loop over the batches that remain in \<^verbatim>\<open>dataiter\<close>. Only a \<^verbatim>\<open>ValueError\<close> of
  \<^verbatim>\<open>item()\<close> is caught; an exception of \<^verbatim>\<open>img[0]\<close> or \<^verbatim>\<open>lab[0]\<close> leaves the loop.
\<close>

fun data_model_loop ::
  "('a, 'f) collaborators \<Rightarrow> ('a tensor \<times> 'a tensor) list \<Rightarrow> nat \<Rightarrow> 'a tensor list \<Rightarrow>
   string list \<Rightarrow> py_error + 'a tensor list \<times> string list" where
  "data_model_loop c [] index features_list labels_list = Inr (features_list, labels_list)"
| "data_model_loop c ((img, lab) # dataiter) index features_list labels_list =
     bind_err (getitem_0 img) (\<lambda>img0.
     bind_err (getitem_0 lab) (\<lambda>lab0.
     bind_err (case item lab0 of
                 Inr v \<Rightarrow> Inr (str_of c v)
               | Inl e \<Rightarrow> if e = ValueError then Inr ''Label not available'' else Inl e)
       (\<lambda>label.
     if index + 1 = 1000 then Inr (features_list @ [img0], labels_list @ [label])
     else data_model_loop c dataiter (index + 1)
            (features_list @ [img0]) (labels_list @ [label]))))"

definition plot_data_model :: "('a, 'f) collaborators \<Rightarrow> ('a, 'f, unit) action" where
  "plot_data_model c =
     and_then dataloader_0 (\<lambda>loader.
     case batches loader of
       [] \<Rightarrow> attempt (Inl StopIteration)
     | (images, labels) # dataiter \<Rightarrow>
         and_then (emit (Add_graph images)) (\<lambda>_.
         and_then (attempt (data_model_loop c dataiter 0 [] [])) (\<lambda>(features_list, labels_list).
         let max_number = min 1000 (length labels_list) in
         and_then (attempt (cat features_list)) (\<lambda>features.
         and_then
           (if length (shape features) \<ge> 3 then
              and_then
                (if length (shape features) = 3
                 then attempt (view_infer [max_number]
                                 [shape features ! 1, shape features ! 2] features)
                 else return features) (\<lambda>features.
              and_then (emit (Add_image ''dataset'' (make_grid c features) (Some 0) None)) (\<lambda>_.
              and_then (attempt (view_infer [max_number] [] features)) (\<lambda>mat.
              emit (Add_embedding mat (Some (Strings labels_list)) (Some features)
                      ''dataset'' 0))))
            else
              and_then (attempt (view_infer [max_number] [] features)) (\<lambda>mat.
              emit (Add_embedding mat (Some (Strings labels_list)) None ''dataset'' 0)))
           (\<lambda>_. emit Flush)))))"

subsection \<open>\<^verbatim>\<open>plot_activations\<close>\<close>

text \<open>
  The loop over the loader, left after the item of index 100. The progress lines the
  method prints are not part of the state.
\<close>

fun activations_loop ::
  "('a tensor \<times> 'a tensor) list \<Rightarrow> nat \<Rightarrow> 'a tensor list \<Rightarrow> 'a tensor list \<Rightarrow>
   py_error + 'a tensor list \<times> 'a tensor list" where
  "activations_loop [] j inputs labels = Inr (inputs, labels)"
| "activations_loop ((img, lab) # rest) j inputs labels =
     bind_err (getitem_0 lab) (\<lambda>lab0.
     bind_err (getitem_0 img) (\<lambda>img0.
     if j = 100 then Inr (inputs @ [img0], labels @ [lab0])
     else activations_loop rest (j + 1) (inputs @ [img0]) (labels @ [lab0])))"

text \<open>The loop over \<^verbatim>\<open>enumerate(acts)\<close>, from index \<open>i\<close> on.\<close>

fun embed_activations ::
  "nat \<Rightarrow> 'a tensor list \<Rightarrow> 'a tensor list \<Rightarrow> ('a, 'f, unit) action" where
  "embed_activations i [] labels = return ()"
| "embed_activations i (act # acts) labels =
     and_then (attempt (case shape act of
                          [] \<Rightarrow> Inl IndexError
                        | len # _ \<Rightarrow> view_infer [len] [] act)) (\<lambda>mat.
     and_then (emit (Add_embedding mat (Some (Tensors labels)) None
                       (''activations_'' @ str_nat i) 0)) (\<lambda>_.
     and_then (emit Flush) (\<lambda>_.
     embed_activations (i + 1) acts labels)))"

definition plot_activations ::
  "('a, 'f) collaborators \<Rightarrow> 'a tensor option \<Rightarrow> ('a, 'f, unit) action" where
  "plot_activations c example =
     and_then dataloader_0 (\<lambda>loader.
     and_then (attempt (activations_loop (batches loader) 0 [] [])) (\<lambda>(inputs, labels).
     and_then (attempt (stack inputs)) (\<lambda>inputs.
     and_then (call_get_activations c (to_example c example inputs)) (\<lambda>acts.
     embed_activations 0 acts labels))))"

subsection \<open>\<^verbatim>\<open>plot_persistence_diagrams\<close>\<close>

fun persistence_loop ::
  "('a tensor \<times> 'a tensor) list \<Rightarrow> nat \<Rightarrow> 'a tensor list \<Rightarrow> py_error + 'a tensor list" where
  "persistence_loop [] j inputs = Inr inputs"
| "persistence_loop ((img, lab) # rest) j inputs =
     bind_err (getitem_0 img) (\<lambda>img0.
     if j = 100 then Inr (inputs @ [img0])
     else persistence_loop rest (j + 1) (inputs @ [img0]))"

definition set_persistence_diagrams :: "'a tensor list \<Rightarrow> ('a, 'f, unit) action" where
  "set_persistence_diagrams dgms s = (Inr (), s\<lparr>persistence_diagrams := Some dgms\<rparr>)"

text \<open>
  Reading \<^verbatim>\<open>self.persistence_diagrams\<close> to iterate over it; \<^verbatim>\<open>None\<close> is not iterable.
\<close>

definition get_persistence_diagrams :: "('a, 'f, 'a tensor list) action" where
  "get_persistence_diagrams s =
     (case persistence_diagrams s of None \<Rightarrow> (Inl TypeError, s) | Some dgms \<Rightarrow> (Inr dgms, s))"

definition plot_persistence_diagrams ::
  "('a, 'f) collaborators \<Rightarrow> 'a tensor option \<Rightarrow> ('a, 'f, unit) action" where
  "plot_persistence_diagrams c example =
     and_then
       (\<lambda>s. if persistence_diagrams s = None then
              and_then dataloader_0 (\<lambda>loader.
              and_then (attempt (persistence_loop (batches loader) 0 [])) (\<lambda>inputs.
              and_then (attempt (stack inputs)) (\<lambda>inputs.
              and_then (call_get_activations c (to_example c example inputs)) (\<lambda>activ.
              set_persistence_diagrams (persistence_diagrams_of_activations c activ))))) s
            else return () s) (\<lambda>_.
     and_then get_persistence_diagrams (\<lambda>dgms.
     let list_of_dgms = map (\<lambda>d. plotly2tensor c (plot_diagram c d)) dgms in
     and_then (attempt (stack list_of_dgms)) (\<lambda>features.
     and_then (emit (Add_images ''persistence_diagrams_of_activations'' features ''NHWC''))
       (\<lambda>_. emit Flush))))"

subsection \<open>\<^verbatim>\<open>plot_decision_boundary\<close>\<close>

definition plot_decision_boundary ::
  "('a, 'f) collaborators \<Rightarrow> bool \<Rightarrow>
   ('a, 'f, 'a tensor \<times> 'a tensor option \<times> 'a tensor option) action" where
  "plot_decision_boundary c use_compact =
     and_then dataloader_0 (\<lambda>loader.
     and_then (attempt (case batches loader of
                          [] \<Rightarrow> Inl StopIteration
                        | (images, labels) # _ \<Rightarrow> getitem_0 images)) (\<lambda>x.
     if use_compact then
       and_then (attempt (case shape x of [] \<Rightarrow> Inl IndexError | n # _ \<Rightarrow> Inr n)) (\<lambda>n.
       let cc = \<lparr>precision = 1 / 10, n_samples = 500, epsilon = 51 / 1000,
                 n_features = n, n_epochs = 100\<rparr>;
           (d_final, label_final) = create_final_distance_matrix c cc;
           embedding = \<lparr>n_components = 3, dissimilarity = ''precomputed''\<rparr>;
           db = fit_transform c embedding d_final in
       and_then (emit (Add_embedding db None None ''compactified_decision_boundary'' 0)) (\<lambda>_.
       and_then (emit Flush) (\<lambda>_.
       return (db, Some d_final, Some label_final))))
     else
       let db = get_decision_boundary c x in
       and_then (emit (Add_embedding db None None ''decision_boundary'' 0)) (\<lambda>_.
       and_then (emit Flush) (\<lambda>_.
       return (db, None, None)))))"

subsection \<open>\<^verbatim>\<open>betti_plot_layers\<close>\<close>

definition betti_plot_layers ::
  "('a, 'f) collaborators \<Rightarrow> int list option \<Rightarrow> 'a tensor option \<Rightarrow> ('a, 'f, unit) action" where
  "betti_plot_layers c homology_dimension example =
     (let homology_dimension =
            (if homology_dimension \<noteq> None then Some [0, 1] else homology_dimension) in
      and_then
        (\<lambda>s. if persistence_diagrams s = None then
               and_then dataloader_0 (\<lambda>loader.
               and_then (attempt (slice_100 (dataset_data loader))) (\<lambda>inputs.
               and_then (call_get_activations c (to_example c example inputs)) (\<lambda>activ.
               set_persistence_diagrams (persistence_diagrams_of_activations c activ)))) s
             else return () s) (\<lambda>_.
      and_then get_persistence_diagrams (\<lambda>diagrams.
      let (dgms, samplings) = betti_curve c diagrams;
          plots = plot_betti_surfaces c dgms samplings homology_dimension in
      show_figures plots)))"

subsection \<open>The interpreter plots\<close>

definition plot_interpreter_text ::
  "('a, 'f) collaborators \<Rightarrow> 'a interpreter \<Rightarrow> ('a, 'f, 'f) action" where
  "plot_interpreter_text c interpreter =
     (let fig = visualize_text c interpreter;
          img_ten = screenshot_png2tensor c fig in
      and_then (emit (Add_image (interpreter_method interpreter) img_ten None (Some ''HWC''))) (\<lambda>_.
      return fig))"

definition plot_interpreter_image ::
  "('a, 'f) collaborators \<Rightarrow> 'a interpreter \<Rightarrow> ('a, 'f, 'f) action" where
  "plot_interpreter_image c interpreter =
     and_then (attempt (visualize_image_attr_multiple c interpreter)) (\<lambda>fig.
     and_then (emit (Add_figure (interpreter_method interpreter) fig)) (\<lambda>_.
     return fig))"

definition plot_feature_importance ::
  "('a, 'f) collaborators \<Rightarrow> 'a interpreter \<Rightarrow> ('a, 'f, 'f) action" where
  "plot_feature_importance c interpreter =
     and_then (attempt (feature_importance_figure c interpreter)) (\<lambda>fig.
     and_then (emit (Add_figure ''Feature Importance'' fig)) (\<lambda>_.
     return fig))"

definition plot_attribution ::
  "('a, 'f) collaborators \<Rightarrow> 'a interpreter \<Rightarrow> ('a, 'f, 'f \<times> 'f) action" where
  "plot_attribution c interpreter =
     and_then (attempt (adjust_tensors_to_plot (zero_elem c) (to_float c) (interpreter_x interpreter))) (\<lambda>t1.
     and_then (attempt (adjust_tensors_to_plot (zero_elem c) (to_float c)
                          (attribution interpreter))) (\<lambda>t2.
     let fig1 = visualize_image_attr c t1;
         fig2 = visualize_image_attr c t2 in
     and_then (emit (Add_figure ''Datum x'' fig1)) (\<lambda>_.
     and_then (emit (Add_figure ''Generic attribution of x'' fig2)) (\<lambda>_.
     return (fig1, fig2)))))"

subsection \<open>Any method call\<close>

datatype 'a operation =
    Plot_data_model
  | Plot_activations "'a tensor option"
  | Plot_persistence_diagrams "'a tensor option"
  | Plot_decision_boundary bool
  | Betti_plot_layers "int list option" "'a tensor option"
  | Plot_interpreter_text "'a interpreter"
  | Plot_interpreter_image "'a interpreter"
  | Plot_feature_importance "'a interpreter"
  | Plot_attribution "'a interpreter"

text \<open>The visualiser after a call, whether the call returned or raised.\<close>

fun run ::
  "('a, 'f) collaborators \<Rightarrow> 'a operation \<Rightarrow> ('a, 'f) visualiser \<Rightarrow> ('a, 'f) visualiser" where
  "run c Plot_data_model s = snd (plot_data_model c s)"
| "run c (Plot_activations example) s = snd (plot_activations c example s)"
| "run c (Plot_persistence_diagrams example) s = snd (plot_persistence_diagrams c example s)"
| "run c (Plot_decision_boundary use_compact) s = snd (plot_decision_boundary c use_compact s)"
| "run c (Betti_plot_layers homology_dimension example) s =
     snd (betti_plot_layers c homology_dimension example s)"
| "run c (Plot_interpreter_text i) s = snd (plot_interpreter_text c i s)"
| "run c (Plot_interpreter_image i) s = snd (plot_interpreter_image c i s)"
| "run c (Plot_feature_importance i) s = snd (plot_feature_importance c i s)"
| "run c (Plot_attribution i) s = snd (plot_attribution c i s)"

section \<open>A pipeline to run the methods on\<close>

text \<open>
  Collaborators over integer elements, with figures named by strings: a model of two
  layers that returns its input twice, diagrams that are the activations, and a
  surface plot that names the homology dimensions it was asked for.
\<close>

definition demo_collaborators :: "(int, string) collaborators" where
  "demo_collaborators =
     \<lparr>get_activations = (\<lambda>t. [t, t]),
      get_decision_boundary = (\<lambda>t. t),
      persistence_diagrams_of_activations = (\<lambda>ts. ts),
      plot_diagram = (\<lambda>t. ''diagram''),
      plotly2tensor = (\<lambda>f. \<lparr>shape = [1, 1, 1], data = [255]\<rparr>),
      make_grid = (\<lambda>t. t),
      betti_curve = (\<lambda>ts. (\<lparr>shape = [0], data = []\<rparr>, \<lparr>shape = [0], data = []\<rparr>)),
      plot_betti_surfaces = (\<lambda>dgms samplings dims.
         case dims of None \<Rightarrow> [''all dimensions'']
         | Some ds \<Rightarrow> map (\<lambda>d. ''dimension '' @ str_int d) ds),
      distance_entry = (\<lambda>cc i j. 0),
      final_labels = (\<lambda>cc. \<lparr>shape = [0], data = []\<rparr>),
      fit_transform = (\<lambda>m t. t),
      visualize_text = (\<lambda>i. ''text''),
      screenshot_png2tensor = (\<lambda>f. \<lparr>shape = [1, 1, 1], data = [255]\<rparr>),
      visualize_image_attr_multiple = (\<lambda>i. Inr ''image''),
      feature_importance_figure = (\<lambda>i. Inr ''importance''),
      visualize_image_attr = (\<lambda>t. ''attribution''),
      to_dtype = (\<lambda>e v. v),
      to_float = (\<lambda>v. v),
      zero_elem = 0,
      str_of = str_int\<rparr>"

text \<open>
  A loader of three batches of one sample each. The label batch of the third batch
  holds a label of two elements, on which \<^verbatim>\<open>item()\<close> raises.
\<close>

definition demo_batches :: "(int tensor \<times> int tensor) list" where
  "demo_batches =
     [(\<lparr>shape = [1, 2], data = [1, 2]\<rparr>, \<lparr>shape = [1], data = [5]\<rparr>),
      (\<lparr>shape = [1, 2], data = [3, 4]\<rparr>, \<lparr>shape = [1], data = [7]\<rparr>),
      (\<lparr>shape = [1, 2], data = [5, 6]\<rparr>, \<lparr>shape = [1, 2], data = [8, 9]\<rparr>)]"

definition demo_loader :: "nat \<Rightarrow> int dataloader" where
  "demo_loader n =
     \<lparr>batches = take n demo_batches,
      dataset_data = \<lparr>shape = [3, 2], data = [1, 2, 3, 4, 5, 6]\<rparr>\<rparr>"

definition demo_visualiser :: "nat \<Rightarrow> (int, string) visualiser" where
  "demo_visualiser n = init [demo_loader n] []"

section \<open>Row-major indexing\<close>

lemma length_indices: "length (indices sh) = prod_list sh"
proof (induction sh)
  case Nil then show ?case by simp
next
  case (Cons n ns)
  have "length (concat (map (\<lambda>i. map ((#) i) (indices ns)) [0..<n])) = n * prod_list ns"
    using Cons by (simp add: length_concat comp_def sum_list_triv)
  then show ?case by simp
qed

lemma set_indices: "idx \<in> set (indices sh) \<longleftrightarrow> valid_index sh idx"
proof (induction sh arbitrary: idx)
  case Nil then show ?case by (auto simp: valid_index_def)
next
  case (Cons n ns)
  show ?case
  proof (cases idx)
    case Nil then show ?thesis by (auto simp: valid_index_def)
  next
    case idx: (Cons i js)
    have "js \<in> set (indices ns) \<longleftrightarrow> list_all2 (\<lambda>i n. i < n) js ns"
      using Cons.IH[of js] by (simp add: valid_index_def)
    then show ?thesis using idx by (auto simp: valid_index_def)
  qed
qed

lemma nth_concat_uniform:
  "\<forall>ys \<in> set xss. length ys = m \<Longrightarrow> i < length xss \<Longrightarrow> j < m
     \<Longrightarrow> concat xss ! (i * m + j) = xss ! i ! j"
proof (induction xss arbitrary: i)
  case Nil then show ?case by simp
next
  case (Cons xs xss)
  show ?case
  proof (cases i)
    case 0 with Cons.prems show ?thesis by (simp add: nth_append)
  next
    case (Suc k)
    with Cons.prems have "concat xss ! (k * m + j) = xss ! k ! j"
      by (intro Cons.IH) auto
    with Suc Cons.prems show ?thesis by (simp add: nth_append)
  qed
qed

lemma flat_index_less: "valid_index sh idx \<Longrightarrow> flat_index sh idx < prod_list sh"
proof (induction sh arbitrary: idx)
  case Nil then show ?case by (simp add: valid_index_def)
next
  case (Cons n ns)
  then obtain i js where idx: "idx = i # js" and i: "i < n" and js: "valid_index ns js"
    by (cases idx) (auto simp: valid_index_def)
  have "flat_index ns js < prod_list ns" using Cons.IH js .
  moreover have "i * prod_list ns + prod_list ns \<le> n * prod_list ns"
    using i by (metis Suc_leI mult_Suc mult_le_mono1 add.commute)
  ultimately show ?case using idx by simp
qed

lemma nth_indices: "valid_index sh idx \<Longrightarrow> indices sh ! flat_index sh idx = idx"
proof (induction sh arbitrary: idx)
  case Nil then show ?case by (simp add: valid_index_def)
next
  case (Cons n ns)
  then obtain i js where idx: "idx = i # js" and i: "i < n" and js: "valid_index ns js"
    by (cases idx) (auto simp: valid_index_def)
  have lt: "flat_index ns js < prod_list ns" using flat_index_less js .
  have "concat (map (\<lambda>i. map ((#) i) (indices ns)) [0..<n]) ! (i * prod_list ns + flat_index ns js)
        = map (\<lambda>i. map ((#) i) (indices ns)) [0..<n] ! i ! flat_index ns js"
    using i lt by (intro nth_concat_uniform) (auto simp: length_indices)
  also have "\<dots> = i # indices ns ! flat_index ns js"
    using i lt by (simp add: length_indices)
  finally show ?case using idx Cons.IH[OF js] by simp
qed

lemma elem_at_tabulate: "valid_index sh idx \<Longrightarrow> elem_at (tabulate sh f) idx = f idx"
  using flat_index_less[of sh idx] nth_indices[of sh idx]
  by (simp add: elem_at_def tabulate_def length_indices)

lemma tabulate_cong:
  "(\<And>idx. valid_index sh idx \<Longrightarrow> f idx = g idx) \<Longrightarrow> tabulate sh f = tabulate sh g"
  by (simp add: tabulate_def set_indices)

lemma shape_tabulate: "shape (tabulate sh f) = sh"
  by (simp add: tabulate_def)

lemma wf_tabulate: "wf_tensor (tabulate sh f)"
  by (simp add: wf_tensor_def tabulate_def length_indices)

lemma valid_index3:
  "valid_index [a, b, c] idx \<longleftrightarrow> (\<exists>i j k. idx = [i, j, k] \<and> i < a \<and> j < b \<and> k < c)"
  by (cases idx; cases "tl idx"; cases "tl (tl idx)") (auto simp: valid_index_def)

lemma argsort3:
  "argsort [a, b, c] =
     (if b \<le> c then (if a \<le> b then [0, 1, 2] else if a \<le> c then [1, 0, 2] else [1, 2, 0])
      else (if a \<le> c then [0, 2, 1] else if a \<le> b then [2, 0, 1] else [2, 1, 0]))"
  by (simp add: argsort_def)

lemma upt_3: "[0..<3] = [0, 1, 2]"
  by (simp add: upt_rec numeral_3_eq_3)

lemma permute_102:
  "length (shape t) = 3 \<Longrightarrow>
   permute [1, 0, 2] t = Inr (tabulate [shape t ! 1, shape t ! 0, shape t ! 2]
      (\<lambda>idx. elem_at t [idx ! 1, idx ! 0, idx ! 2]))"
  by (simp add: permute_def position_def upt_3 eval_nat_numeral)

section \<open>Lemmas on the tensor operations\<close>

lemma permute_shape: "permute dims t = Inr r \<Longrightarrow> shape r = map (\<lambda>a. shape t ! a) dims"
  by (auto simp: permute_def shape_tabulate split: if_splits)

lemma permute_elem:
  assumes "permute dims t = Inr r" and "valid_index (shape r) idx"
  shows "elem_at r idx = elem_at t (map (\<lambda>a. idx ! position dims a) [0..<length dims])"
proof -
  have r: "r = tabulate (map (\<lambda>a. shape t ! a) dims)
             (\<lambda>idx. elem_at t (map (\<lambda>a. idx ! position dims a) [0..<length dims]))"
    using assms(1) by (auto simp: permute_def split: if_splits)
  have "valid_index (map (\<lambda>a. shape t ! a) dims) idx"
    using assms(2) r by (simp add: shape_tabulate)
  then show ?thesis by (subst r) (rule elem_at_tabulate)
qed

lemma slice_4_shape: "slice_4 t = Inr r \<Longrightarrow> shape r = (shape t)[2 := min 4 (shape t ! 2)]"
  by (auto simp: slice_4_def shape_tabulate split: if_splits)

lemma slice_4_elem:
  assumes "slice_4 t = Inr r" and "valid_index (shape r) idx"
  shows "elem_at r idx = elem_at t idx"
proof -
  have r: "r = tabulate ((shape t)[2 := min 4 (shape t ! 2)]) (elem_at t)"
    using assms(1) by (auto simp: slice_4_def split: if_splits)
  have "valid_index ((shape t)[2 := min 4 (shape t ! 2)]) idx"
    using assms(2) r by (simp add: shape_tabulate)
  then show ?thesis by (subst r) (rule elem_at_tabulate)
qed

lemma index_0_shape: "index_0 t = Inr r \<Longrightarrow> shape r = tl (shape t)"
  by (auto simp: index_0_def shape_tabulate split: if_splits)

lemma index_0_elem:
  assumes "index_0 t = Inr r" and "valid_index (shape r) idx"
  shows "elem_at r idx = elem_at t (0 # idx)"
proof -
  have r: "r = tabulate (tl (shape t)) (\<lambda>idx. elem_at t (0 # idx))"
    using assms(1) by (auto simp: index_0_def split: if_splits)
  have "valid_index (tl (shape t)) idx"
    using assms(2) r by (simp add: shape_tabulate)
  then show ?thesis by (subst r) (rule elem_at_tabulate)
qed

lemma slice_4_id:
  assumes "length (shape t) = 3" "shape t ! 2 \<le> 4" "t = tabulate (shape t) f"
  shows "slice_4 t = Inr t"
proof -
  have sh: "(shape t)[2 := min 4 (shape t ! 2)] = shape t"
    using assms(1,2) by (simp add: min_def)
  have "tabulate (shape t) (elem_at t) = tabulate (shape t) f"
    by (rule tabulate_cong) (subst assms(3), rule elem_at_tabulate)
  then show ?thesis using assms(1,3) sh by (simp add: slice_4_def)
qed

lemma permute_twice:
  assumes t: "length (shape t) = 3"
    and p: "p \<in> {[2, 1, 0], [2, 0, 1], [0, 2, 1], [1, 2, 0], [1, 0, 2], [0, 1, 2]}"
    and m: "shape t ! (p ! 2) \<le> 4"
  shows "bind_err (permute p t) (\<lambda>u. bind_err (slice_4 u) (permute [1, 0, 2]))
         = permute [p ! 1, p ! 0, p ! 2] t"
proof -
  obtain a b c where sh: "shape t = [a, b, c]"
    using t by (cases "shape t"; cases "tl (shape t)"; cases "tl (tl (shape t))") auto
  define u where "u = tabulate (map (\<lambda>a. shape t ! a) p)
      (\<lambda>idx. elem_at t (map (\<lambda>a. idx ! position p a) [0..<length p]))"
  have pu: "permute p t = Inr u"
    using p sh by (auto simp: permute_def u_def)
  have shu: "shape u = map (\<lambda>a. shape t ! a) p" by (simp add: u_def shape_tabulate)
  have lu: "length (shape u) = 3" using p shu by auto
  have "shape u ! 2 \<le> 4" using m p shu by auto
  then have su: "slice_4 u = Inr u"
    using lu by (intro slice_4_id[where f = "\<lambda>idx. elem_at t (map (\<lambda>a. idx ! position p a) [0..<length p])"])
      (simp_all add: u_def shape_tabulate)
  have "permute [1, 0, 2] u = permute [p ! 1, p ! 0, p ! 2] t"
  proof -
    have "tabulate [shape u ! 1, shape u ! 0, shape u ! 2] (\<lambda>idx. elem_at u [idx ! 1, idx ! 0, idx ! 2])
        = tabulate [shape u ! 1, shape u ! 0, shape u ! 2]
            (\<lambda>idx. elem_at t (map (\<lambda>a. idx ! position [p ! 1, p ! 0, p ! 2] a) [0..<3]))"
    proof (rule tabulate_cong)
      fix idx assume "valid_index [shape u ! 1, shape u ! 0, shape u ! 2] idx"
      then obtain i j k where idx: "idx = [i, j, k]" and b: "i < shape u ! 1" "j < shape u ! 0" "k < shape u ! 2"
        by (auto simp: valid_index3)
      have v: "valid_index (shape u) [j, i, k]"
        using b p sh by (auto simp: shu valid_index3)
      have "elem_at u [j, i, k] = elem_at t (map (\<lambda>a. [j, i, k] ! position p a) [0..<length p])"
        using permute_elem[OF pu v] .
      also have "\<dots> = elem_at t (map (\<lambda>a. [i, j, k] ! position [p ! 1, p ! 0, p ! 2] a) [0..<3])"
        using p by (auto simp: position_def upt_3)
      finally show "elem_at u [idx ! 1, idx ! 0, idx ! 2]
          = elem_at t (map (\<lambda>a. idx ! position [p ! 1, p ! 0, p ! 2] a) [0..<3])"
        using idx by simp
    qed
    moreover have "permute [p ! 1, p ! 0, p ! 2] t = Inr (tabulate [shape u ! 1, shape u ! 0, shape u ! 2]
            (\<lambda>idx. elem_at t (map (\<lambda>a. idx ! position [p ! 1, p ! 0, p ! 2] a) [0..<3])))"
      using p sh by (auto simp: permute_def shu position_def upt_3 eval_nat_numeral)
    ultimately show ?thesis using permute_102[OF lu] by simp
  qed
  then show ?thesis using pu su by (simp add: bind_err_def)
qed

lemma rev_argsort3:
  "rev (argsort [a, b, c]) \<in> {[2, 1, 0], [2, 0, 1], [0, 2, 1], [1, 2, 0], [1, 0, 2], [0, 1, 2]}"
  by (simp add: argsort3)

lemma rev_argsort3_last:
  "[a, b, c] ! (rev (argsort [a, b, c]) ! 2) = Min (set [a, b, c])"
  by (auto simp: argsort3 min_def)

lemma last_le_hd: "sorted (rev xs) \<Longrightarrow> xs \<noteq> [] \<Longrightarrow> last xs \<le> (hd xs :: nat)"
  by (cases xs) (auto simp: sorted_append)

lemma sorted_argsort: "sorted (map (\<lambda>a. xs ! a) (argsort xs))"
proof -
  have "\<forall>p \<in> set (sort_key fst (zip xs [0..<length xs])). xs ! snd p = fst p"
    by (auto simp: in_set_zip)
  then have "map (\<lambda>a. xs ! a) (argsort xs) = map fst (sort_key fst (zip xs [0..<length xs]))"
    by (simp add: argsort_def)
  then show ?thesis by (simp add: sorted_sort_key)
qed

lemma length_argsort: "length (argsort xs) = length xs"
  by (simp add: argsort_def)

lemma permute_error: "permute dims t = Inl e \<Longrightarrow> dims \<noteq> [] \<Longrightarrow> e = RuntimeError"
  by (auto simp: permute_def split: if_splits)

lemma high_rank_raises:
  assumes "4 \<le> length (shape v)"
  shows "bind_err (permute (rev (argsort (shape v))) v) (\<lambda>w.
           bind_err (if last (shape w) = 2 then zeros_with z cast w else slice_4 w)
             (permute [1, 0, 2])) = Inl RuntimeError"
proof (cases "permute (rev (argsort (shape v))) v")
  case (Inl e)
  have "rev (argsort (shape v)) \<noteq> []"
    using assms length_argsort[of "shape v"] by auto
  then show ?thesis using Inl permute_error[OF Inl] by (simp add: bind_err_def)
next
  case (Inr w)
  have shw: "shape w = rev (map (\<lambda>a. shape v ! a) (argsort (shape v)))"
    using permute_shape[OF Inr] by (simp add: rev_map)
  have lw: "4 \<le> length (shape w)"
    using assms shw by (simp add: length_argsort)
  have desc: "sorted (rev (shape w))"
    using sorted_argsort[of "shape v"] shw by simp
  show ?thesis
  proof (cases "last (shape w) = 2")
    case True
    have ne: "shape w \<noteq> []" using lw by auto
    have "last (shape w) \<le> hd (shape w)"
      using desc ne by (rule last_le_hd)
    then have "hd (shape w) \<noteq> 1" using True by simp
    then have "dropWhile (\<lambda>n. n = 1) (shape w) = shape w"
      using ne by (cases "shape w") auto
    then have "zeros_with z cast w = Inl RuntimeError"
      using lw by (simp add: zeros_with_def broadcastable_def Let_def)
    then show ?thesis using Inr True by (simp add: bind_err_def)
  next
    case False
    obtain w' where w': "slice_4 w = Inr w'"
      using lw by (simp add: slice_4_def)
    have "length (shape w') = length (shape w)"
      using slice_4_shape[OF w'] by simp
    then have "permute [1, 0, 2] w' = Inl RuntimeError"
      using lw by (simp add: permute_def)
    then show ?thesis using Inr False w' by (simp add: bind_err_def)
  qed
qed

lemma tabulate_eqI:
  "\<forall>idx \<in> set (indices sh). f idx = g idx \<Longrightarrow> tabulate sh f = tabulate sh g"
  by (simp add: tabulate_def)

section \<open>Properties of \<^verbatim>\<open>_adjust_tensors_to_plot\<close>\<close>

text \<open>
  Claim C5, as the code has it. For an input of shape (B, 2, H, W) with a non-empty batch
  axis and with H and W at least 2, \<^verbatim>\<open>_adjust_tensors_to_plot\<close> returns an array of
  three axes whose last axis has exactly 3 entries, and every element at index 2 of that
  axis is the zero of \<^verbatim>\<open>torch.zeros\<close>. (The two-channel test of the code is made on the
  smallest extent after sorting, so H or W below 2 takes the other branch.)
\<close>

theorem adjust_two_channels:
  assumes sh: "shape t = [B, 2, H, W]" and B: "0 < B" and H: "2 \<le> H" and W: "2 \<le> W"
  shows "\<exists>out. adjust_tensors_to_plot z cast t = Inr out
           \<and> shape out = (if H \<le> W then [H, W, 3] else [W, H, 3])
           \<and> (\<forall>i j. i < shape out ! 0 \<longrightarrow> j < shape out ! 1 \<longrightarrow> elem_at out [i, j, 2] = z)"
proof -
  define t0 where "t0 = tabulate [2, H, W] (\<lambda>idx. elem_at t (0 # idx))"
  have i0: "index_0 t = Inr t0" using sh B by (simp add: index_0_def t0_def)
  have sh0: "shape t0 = [2, H, W]" by (simp add: t0_def shape_tabulate)
  define p where "p = rev (argsort (shape t0))"
  have p: "p = (if H \<le> W then [2, 1, 0] else [1, 2, 0])"
    using H W by (simp add: p_def sh0 argsort3)
  define s0 s1 where "s0 = max H W" and "s1 = min H W"
  have "\<exists>t1. permute p t0 = Inr t1 \<and> shape t1 = [s0, s1, 2]"
    by (cases "H \<le> W") (simp_all add: p sh0 permute_def shape_tabulate s0_def s1_def)
  then obtain t1 where t1: "permute p t0 = Inr t1" and sh1: "shape t1 = [s0, s1, 2]"
    by blast
  have s: "2 \<le> s0" "2 \<le> s1" using H W by (auto simp: s0_def s1_def)
  define t2 where "t2 = tabulate [s0, s1, 3]
      (\<lambda>idx. if idx ! 2 < 2 then cast (broadcast_at t1 [s0, s1, 2] idx) else z)"
  have z: "zeros_with z cast t1 = Inr t2"
    using s by (simp add: zeros_with_def sh1 t2_def broadcastable_def)
  have out: "permute [1, 0, 2] t2 = Inr (tabulate [s1, s0, 3]
      (\<lambda>idx. elem_at t2 [idx ! 1, idx ! 0, idx ! 2]))"
    using permute_102[of t2] by (simp add: t2_def shape_tabulate)
  have adj: "adjust_tensors_to_plot z cast t = Inr (tabulate [s1, s0, 3]
      (\<lambda>idx. elem_at t2 [idx ! 1, idx ! 0, idx ! 2]))"
    using i0 t1 z out sh1
    by (simp add: adjust_tensors_to_plot_def sh bind_err_def p_def[symmetric] Let_def)
  have el: "elem_at (tabulate [s1, s0, 3]
      (\<lambda>idx. elem_at t2 [idx ! 1, idx ! 0, idx ! 2])) [i, j, 2] = z"
    if "i < s1" "j < s0" for i j
  proof -
    have v: "valid_index [s1, s0, 3] [i, j, 2]" using that by (simp add: valid_index3)
    have v2: "valid_index [s0, s1, 3] [j, i, 2]" using that by (simp add: valid_index3)
    have "elem_at (tabulate [s1, s0, 3] (\<lambda>idx. elem_at t2 [idx ! 1, idx ! 0, idx ! 2])) [i, j, 2]
          = elem_at t2 [j, i, 2]"
      by (simp add: elem_at_tabulate[OF v])
    also have "\<dots> = z"
      by (simp add: t2_def elem_at_tabulate[OF v2])
    finally show ?thesis .
  qed
  show ?thesis
    unfolding adj using el by (auto simp: shape_tabulate s0_def s1_def)
qed

theorem adjust_two_channels_witness:
  "\<exists>out. adjust_tensors_to_plot (0::int) id
            \<lparr>shape = [1, 2, 2, 2], data = [1, 2, 3, 4, 5, 6, 7, 8]\<rparr> = Inr out
         \<and> shape out = [2, 2, 3]
         \<and> elem_at out [0, 0, 2] = 0 \<and> elem_at out [1, 1, 2] = 0"
proof -
  obtain out where
    "adjust_tensors_to_plot (0::int) id
       \<lparr>shape = [1, 2, 2, 2], data = [1, 2, 3, 4, 5, 6, 7, 8]\<rparr> = Inr out"
    "shape out = [2, 2, 3]"
    "\<forall>i j. i < shape out ! 0 \<longrightarrow> j < shape out ! 1 \<longrightarrow> elem_at out [i, j, 2] = 0"
    using adjust_two_channels
      [of "\<lparr>shape = [1, 2, 2, 2], data = [1, 2, 3, 4, 5, 6, 7, 8::int]\<rparr>" 1 2 2 0 id]
    by auto
  then show ?thesis by auto
qed

text \<open>
  The claim as stated fails for an input of shape (1, 2, 1, 5): the smallest extent is
  1, no channel is added, and the last axis of the result has 1 entry.
\<close>

theorem adjust_two_channels_counterexample:
  "adjust_tensors_to_plot (0::int) id
     \<lparr>shape = [1, 2, 1, 5], data = [1, 2, 3, 4, 5, 6, 7, 8, 9, 10]\<rparr>
   = Inr \<lparr>shape = [2, 5, 1], data = [1, 2, 3, 4, 5, 6, 7, 8, 9, 10]\<rparr>"
  by code_simp

text \<open>
  Claim C6, as the code has it. For an input of shape (B, 5, H, W) with a non-empty batch
  axis and with H and W at least 5, the result has three axes, its last axis has exactly
  4 entries, and the entry \<open>k < 4\<close> of the last axis is channel \<open>k\<close> of the first
  batch element: channel 4 is discarded. (With H or W below 5 the smallest extent is not
  that of the channel axis, and another axis is the last one.)
\<close>

theorem adjust_five_channels:
  assumes sh: "shape t = [B, 5, H, W]" and B: "0 < B" and H: "5 \<le> H" and W: "5 \<le> W"
  shows "\<exists>out. adjust_tensors_to_plot z cast t = Inr out
           \<and> shape out = (if H \<le> W then [H, W, 4] else [W, H, 4])
           \<and> (\<forall>i j k. i < shape out ! 0 \<longrightarrow> j < shape out ! 1 \<longrightarrow> k < 4 \<longrightarrow>
                 elem_at out [i, j, k] =
                   (if H \<le> W then elem_at t [0, k, i, j] else elem_at t [0, k, j, i]))"
proof -
  obtain t0 where i0: "index_0 t = Inr t0"
    using sh B by (simp add: index_0_def)
  have sh0: "shape t0 = [5, H, W]"
    using index_0_shape[OF i0] sh by simp
  define p where "p = rev (argsort (shape t0))"
  have p: "p = (if H \<le> W then [2, 1, 0] else [1, 2, 0])"
    using H W by (simp add: p_def sh0 argsort3)
  obtain t1 where t1: "permute p t0 = Inr t1"
    by (cases "H \<le> W") (simp_all add: p sh0 permute_def)
  have sh1: "shape t1 = (if H \<le> W then [W, H, 5] else [H, W, 5])"
    using permute_shape[OF t1] by (simp add: p sh0)
  obtain t2 where t2: "slice_4 t1 = Inr t2"
    using sh1 by (simp add: slice_4_def split: if_splits)
  have sh2: "shape t2 = (if H \<le> W then [W, H, 4] else [H, W, 4])"
    using slice_4_shape[OF t2] by (simp add: sh1)
  obtain out where out: "permute [1, 0, 2] t2 = Inr out"
    using permute_102[of t2] sh2 by (simp split: if_splits)
  have sho: "shape out = (if H \<le> W then [H, W, 4] else [W, H, 4])"
    using permute_shape[OF out] by (simp add: sh2)
  have adj: "adjust_tensors_to_plot z cast t = Inr out"
    using i0 t1 t2 out sh1
    by (simp add: adjust_tensors_to_plot_def sh bind_err_def p_def[symmetric] Let_def)
  have el: "elem_at out [i, j, k] =
              (if H \<le> W then elem_at t [0, k, i, j] else elem_at t [0, k, j, i])"
    if ij: "i < shape out ! 0" "j < shape out ! 1" and k: "k < 4" for i j k
  proof -
    have vo: "valid_index (shape out) [i, j, k]"
      using ij k by (simp add: sho valid_index3 split: if_splits)
    have v2: "valid_index (shape t2) [j, i, k]"
      using ij k by (simp add: sho sh2 valid_index3 split: if_splits)
    have v1: "valid_index (shape t1) [j, i, k]"
      using ij k by (simp add: sho sh1 valid_index3 split: if_splits)
    have e1: "elem_at out [i, j, k] = elem_at t2 [j, i, k]"
      using permute_elem[OF out vo] by (simp add: position_def upt_3)
    have e2: "elem_at t2 [j, i, k] = elem_at t1 [j, i, k]"
      using slice_4_elem[OF t2 v2] .
    show ?thesis
    proof (cases "H \<le> W")
      case True
      have v0: "valid_index (shape t0) [k, i, j]"
        using ij k True by (simp add: sho sh0 valid_index3)
      have "elem_at t1 [j, i, k] = elem_at t0 [k, i, j]"
        using permute_elem[OF t1 v1] True by (simp add: p position_def upt_3)
      with e1 e2 index_0_elem[OF i0 v0] True show ?thesis by simp
    next
      case False
      have v0: "valid_index (shape t0) [k, j, i]"
        using ij k False by (simp add: sho sh0 valid_index3)
      have "elem_at t1 [j, i, k] = elem_at t0 [k, j, i]"
        using permute_elem[OF t1 v1] False by (simp add: p position_def upt_3)
      with e1 e2 index_0_elem[OF i0 v0] False show ?thesis by simp
    qed
  qed
  show ?thesis using adj sho el by blast
qed

theorem adjust_five_channels_witness:
  "\<exists>out. adjust_tensors_to_plot (0::int) id
            \<lparr>shape = [1, 5, 5, 6], data = map int [0..<150]\<rparr> = Inr out
         \<and> shape out = [5, 6, 4]
         \<and> elem_at out [1, 2, 3] = elem_at \<lparr>shape = [1, 5, 5, 6], data = map int [0..<150]\<rparr> [0, 3, 1, 2]"
proof -
  obtain out where
    "adjust_tensors_to_plot (0::int) id
       \<lparr>shape = [1, 5, 5, 6], data = map int [0..<150]\<rparr> = Inr out"
    "shape out = [5, 6, 4]"
    "\<forall>i j k. i < shape out ! 0 \<longrightarrow> j < shape out ! 1 \<longrightarrow> k < 4 \<longrightarrow>
       elem_at out [i, j, k]
         = elem_at \<lparr>shape = [1, 5, 5, 6], data = map int [0..<150]\<rparr> [0, k, i, j]"
    using adjust_five_channels
      [of "\<lparr>shape = [1, 5, 5, 6], data = map int [0..<150]\<rparr>" 1 5 6 0 id]
    by auto
  then show ?thesis by auto
qed

text \<open>
  The claim as stated fails for an input of shape (1, 5, 1, 2): the smallest extent is
  1, the axis of extent 5 is not the last one, and the last axis of the result has 1
  entry.
\<close>

theorem adjust_five_channels_counterexample:
  "adjust_tensors_to_plot (0::int) id
     \<lparr>shape = [1, 5, 1, 2], data = [1, 2, 3, 4, 5, 6, 7, 8, 9, 10]\<rparr>
   = Inr \<lparr>shape = [2, 5, 1], data = [1, 3, 5, 7, 9, 2, 4, 6, 8, 10]\<rparr>"
  by code_simp

text \<open>
  Claim C4, as the code has it. For an input of exactly 3 axes whose last axis has at
  most 4 entries and whose smallest extent is not 2, the result is the input with its
  axes permuted: it is \<^verbatim>\<open>tensor.permute(*q)\<close> for a permutation \<open>q\<close> of the three
  axes, and each of its elements is the element of the input at the permuted index.
  (An input whose smallest extent is 2 gets a third channel of zeros.)
\<close>

theorem adjust_three_axes:
  assumes r: "length (shape t) = 3" and l: "last (shape t) \<le> 4"
    and m: "Min (set (shape t)) \<noteq> 2"
  shows "\<exists>q out. distinct q \<and> set q = {0, 1, 2}
           \<and> adjust_tensors_to_plot z cast t = Inr out
           \<and> permute q t = Inr out
           \<and> shape out = map (\<lambda>a. shape t ! a) q
           \<and> (\<forall>idx. valid_index (shape out) idx \<longrightarrow>
                 elem_at out idx = elem_at t (map (\<lambda>a. idx ! position q a) [0..<3]))"
proof -
  obtain a b c where sh: "shape t = [a, b, c]"
    using r by (cases "shape t"; cases "tl (shape t)"; cases "tl (tl (shape t))") auto
  define p where "p = rev (argsort (shape t))"
  define q where "q = [p ! 1, p ! 0, p ! 2]"
  have p: "p \<in> {[2, 1, 0], [2, 0, 1], [0, 2, 1], [1, 2, 0], [1, 0, 2], [0, 1, 2]}"
    unfolding p_def sh by (rule rev_argsort3)
  have pm: "shape t ! (p ! 2) = Min (set (shape t))"
    unfolding p_def sh by (rule rev_argsort3_last)
  have "Min (set (shape t)) \<le> last (shape t)"
    using sh by simp
  then have m4: "shape t ! (p ! 2) \<le> 4" using pm l by simp
  have q: "distinct q" "set q = {0, 1, 2}" using p by (auto simp: q_def)
  obtain u where u: "permute p t = Inr u"
    using p sh by (auto simp: permute_def)
  have "shape u = map (\<lambda>a. shape t ! a) p" using permute_shape[OF u] .
  then have "last (shape u) = shape t ! (p ! 2)" using p by auto
  then have lu: "last (shape u) \<noteq> 2" using pm m by simp
  have "adjust_tensors_to_plot z cast t
          = bind_err (permute p t) (\<lambda>u. bind_err (slice_4 u) (permute [1, 0, 2]))"
    using u lu r by (simp add: adjust_tensors_to_plot_def bind_err_def p_def[symmetric] Let_def)
  also have "\<dots> = permute q t"
    unfolding q_def using r p m4 by (rule permute_twice)
  finally have adj: "adjust_tensors_to_plot z cast t = permute q t" .
  obtain out where out: "permute q t = Inr out"
    using p sh by (auto simp: permute_def q_def)
  have lq: "length q = 3" by (simp add: q_def)
  have "\<forall>idx. valid_index (shape out) idx \<longrightarrow>
          elem_at out idx = elem_at t (map (\<lambda>a. idx ! position q a) [0..<3])"
    using permute_elem[OF out] lq by simp
  with q adj out permute_shape[OF out] show ?thesis by metis
qed

theorem adjust_three_axes_witness:
  "\<exists>q out. distinct q \<and> set q = {0, 1, 2}
     \<and> adjust_tensors_to_plot (0::int) id
          \<lparr>shape = [4, 5, 3], data = map int [0..<60]\<rparr> = Inr out
     \<and> permute q \<lparr>shape = [4, 5, 3], data = map int [0..<60]\<rparr> = Inr out
     \<and> shape out = map (\<lambda>a. [4, 5, 3] ! a) q"
proof -
  have "Min (set [4, 5, 3 :: nat]) \<noteq> 2" by simp
  then show ?thesis
    using adjust_three_axes [of "\<lparr>shape = [4, 5, 3], data = map int [0..<60]\<rparr>" 0 id]
    by simp blast
qed

text \<open>
  The claim as stated fails for an input of shape (4, 3, 2): the result has shape
  (3, 4, 3) and 36 elements, 12 of them the added zeros, where the input has 24.
\<close>

theorem adjust_three_axes_counterexample:
  "adjust_tensors_to_plot (0::int) id
     \<lparr>shape = [4, 3, 2],
      data = [1, 2, 3, 4, 5, 6, 7, 8, 9, 10, 11, 12,
              13, 14, 15, 16, 17, 18, 19, 20, 21, 22, 23, 24]\<rparr>
   = Inr \<lparr>shape = [3, 4, 3],
          data = [1, 2, 0, 7, 8, 0, 13, 14, 0, 19, 20, 0,
                  3, 4, 0, 9, 10, 0, 15, 16, 0, 21, 22, 0,
                  5, 6, 0, 11, 12, 0, 17, 18, 0, 23, 24, 0]\<rparr>"
  by code_simp

text \<open>
  Claim C10. For an input of four or more axes, the result of
  \<^verbatim>\<open>_adjust_tensors_to_plot\<close> (the array, or the exception raised) is the same for
  two inputs that agree on index 0 of the leading axis and, from five axes on, on index
  0 of the last axis. (From six axes on, every call raises.)
\<close>

theorem adjust_depends_on_first_slice:
  assumes r: "4 \<le> length (shape t)" and s: "same_slice t u"
  shows "adjust_tensors_to_plot z cast u = adjust_tensors_to_plot z cast t"
proof -
  have len: "length (shape u) = length (shape t)"
    and pos: "0 < hd (shape t)" "0 < hd (shape u)"
    using s by (simp_all add: same_slice_def)
  consider (four) "length (shape t) = 4" | (five) "length (shape t) = 5"
    | (more) "6 \<le> length (shape t)"
    using r by linarith
  then show ?thesis
  proof cases
    case four
    have sh: "tl (shape u) = tl (shape t)"
      and el: "\<forall>idx \<in> set (indices (tl (shape t))). elem_at u (0 # idx) = elem_at t (0 # idx)"
      using s four by (simp_all add: same_slice_def)
    have "index_0 u = index_0 t"
      using pos sh tabulate_eqI[OF el] by (simp add: index_0_def)
    then show ?thesis
      using four len by (simp add: adjust_tensors_to_plot_def)
  next
    case five
    have last: "0 < last (shape t)" "0 < last (shape u)"
      and sh: "butlast (tl (shape u)) = butlast (tl (shape t))"
      and el: "\<forall>idx \<in> set (indices (butlast (tl (shape t)))).
                 elem_at u (0 # idx @ [0]) = elem_at t (0 # idx @ [0])"
      using s five by (simp_all add: same_slice_def)
    obtain b d1 d2 d3 l where st: "shape t = [b, d1, d2, d3, l]"
      using five by (cases "shape t"; cases "tl (shape t)"; cases "tl (tl (shape t))";
          cases "tl (tl (tl (shape t)))"; cases "tl (tl (tl (tl (shape t))))") auto
    obtain b' l' where su: "shape u = [b', d1, d2, d3, l']"
      using five len sh st by (cases "shape u"; cases "tl (shape u)"; cases "tl (tl (shape u))";
          cases "tl (tl (tl (shape u)))"; cases "tl (tl (tl (tl (shape u))))") auto
    have "tabulate [d1, d2, d3] (\<lambda>idx. elem_at u (0 # take 3 idx @ 0 # drop 3 idx))
        = tabulate [d1, d2, d3] (\<lambda>idx. elem_at t (0 # take 3 idx @ 0 # drop 3 idx))"
    proof (rule tabulate_cong)
      fix idx assume v: "valid_index [d1, d2, d3] idx"
      then have "length idx = 3" by (auto simp: valid_index3)
      moreover have "butlast (tl (shape t)) = [d1, d2, d3]"
        using st by simp
      then have "idx \<in> set (indices (butlast (tl (shape t))))"
        using v by (simp only: set_indices)
      ultimately show "elem_at u (0 # take 3 idx @ 0 # drop 3 idx)
                     = elem_at t (0 # take 3 idx @ 0 # drop 3 idx)"
        using el by simp
    qed
    then have "index_0_0 u = index_0_0 t"
      using pos last st su by (simp add: index_0_0_def)
    then show ?thesis
      using five len by (simp add: adjust_tensors_to_plot_def)
  next
    case more
    have sh: "butlast (tl (shape u)) = butlast (tl (shape t))"
      using s more by (simp add: same_slice_def)
    have "butlast (tl (shape t)) ! 3 = shape t ! 4" "butlast (tl (shape u)) ! 3 = shape u ! 4"
      using more len by (simp_all add: nth_butlast nth_tl)
    then have d4: "shape u ! 4 = shape t ! 4" using sh by simp
    have h0: "shape v ! 0 = hd (shape v)" if "6 \<le> length (shape v)" for v :: "'a tensor"
      using that by (cases "shape v") auto
    have raises: "adjust_tensors_to_plot z cast v =
        (if shape v ! 0 = 0 \<or> shape v ! 4 = 0 then Inl IndexError else Inl RuntimeError)"
      if v: "6 \<le> length (shape v)" for v :: "'a tensor"
    proof (cases "shape v ! 0 = 0 \<or> shape v ! 4 = 0")
      case True
      then show ?thesis using v
        by (simp add: adjust_tensors_to_plot_def index_0_0_def bind_err_def)
    next
      case False
      define w where "w = tabulate (take 3 (tl (shape v)) @ drop 5 (shape v))
                  (\<lambda>idx. elem_at v (0 # take 3 idx @ 0 # drop 3 idx))"
      have i: "index_0_0 v = Inr w" using False by (simp add: index_0_0_def w_def)
      have "4 \<le> length (shape w)" using v by (simp add: w_def shape_tabulate)
      from high_rank_raises[OF this, of z cast] show ?thesis
        using False v i by (simp add: adjust_tensors_to_plot_def bind_err_def Let_def)
    qed
    show ?thesis
      using raises[OF more] raises[of u] more len d4 pos h0[of t] h0[of u] by simp
  qed
qed

theorem adjust_depends_on_first_slice_witness:
  "adjust_tensors_to_plot (0::int) id
     \<lparr>shape = [2, 3, 1, 2], data = [1, 2, 3, 4, 5, 6, 7, 8, 9, 10, 11, 12]\<rparr>
   = adjust_tensors_to_plot 0 id \<lparr>shape = [1, 3, 1, 2], data = [1, 2, 3, 4, 5, 6]\<rparr>
   \<and> adjust_tensors_to_plot (0::int) id \<lparr>shape = [1, 3, 1, 2], data = [1, 2, 3, 4, 5, 6]\<rparr>
   = Inr \<lparr>shape = [2, 3, 1], data = [1, 3, 5, 2, 4, 6]\<rparr>"
proof -
  have h: "same_slice \<lparr>shape = [1, 3, 1, 2], data = [1, 2, 3, 4, 5, 6::int]\<rparr>
             \<lparr>shape = [2, 3, 1, 2], data = [1, 2, 3, 4, 5, 6, 7, 8, 9, 10, 11, 12]\<rparr>"
    by code_simp
  have "adjust_tensors_to_plot (0::int) id
          \<lparr>shape = [2, 3, 1, 2], data = [1, 2, 3, 4, 5, 6, 7, 8, 9, 10, 11, 12]\<rparr>
        = adjust_tensors_to_plot 0 id \<lparr>shape = [1, 3, 1, 2], data = [1, 2, 3, 4, 5, 6]\<rparr>"
    by (rule adjust_depends_on_first_slice[OF _ h]) simp
  moreover have "adjust_tensors_to_plot (0::int) id
          \<lparr>shape = [1, 3, 1, 2], data = [1, 2, 3, 4, 5, 6]\<rparr>
        = Inr \<lparr>shape = [2, 3, 1], data = [1, 3, 5, 2, 4, 6]\<rparr>"
    by code_simp
  ultimately show ?thesis by simp
qed

section \<open>Lemmas on the methods\<close>

lemmas action_defs = return_def attempt_def and_then_def emit_def show_figures_def
  dataloader_0_def call_get_activations_def set_persistence_diagrams_def
  get_persistence_diagrams_def

lemmas demo_defs = demo_visualiser_def demo_loader_def demo_batches_def init_def

lemma embed_activations_cache:
  "persistence_diagrams (snd (embed_activations i acts labels s)) = persistence_diagrams s"
  by (induction i acts labels arbitrary: s rule: embed_activations.induct)
     (auto simp: action_defs split: sum.splits list.splits prod.splits)

lemma plot_data_model_cache:
  "persistence_diagrams (snd (plot_data_model c s)) = persistence_diagrams s"
  by (auto simp: plot_data_model_def action_defs Let_def
           split: sum.splits list.splits prod.splits if_splits)

lemma plot_activations_cache:
  "persistence_diagrams (snd (plot_activations c example s)) = persistence_diagrams s"
  by (auto simp: plot_activations_def action_defs embed_activations_cache
           split: sum.splits list.splits prod.splits)

lemma plot_persistence_diagrams_cache:
  "persistence_diagrams s = Some d \<Longrightarrow>
   persistence_diagrams (snd (plot_persistence_diagrams c example s)) = Some d"
  by (auto simp: plot_persistence_diagrams_def action_defs Let_def
           split: sum.splits list.splits prod.splits)

lemma plot_persistence_diagrams_calls:
  "persistence_diagrams s = Some d \<Longrightarrow>
   activation_calls (snd (plot_persistence_diagrams c example s)) = activation_calls s"
  by (auto simp: plot_persistence_diagrams_def action_defs Let_def
           split: sum.splits list.splits prod.splits)

lemma plot_decision_boundary_cache:
  "persistence_diagrams (snd (plot_decision_boundary c use_compact s)) = persistence_diagrams s"
  by (auto simp: plot_decision_boundary_def action_defs Let_def
           split: sum.splits list.splits prod.splits)

lemma betti_plot_layers_cache:
  "persistence_diagrams s = Some d \<Longrightarrow>
   persistence_diagrams (snd (betti_plot_layers c homology_dimension example s)) = Some d"
  by (auto simp: betti_plot_layers_def action_defs Let_def
           split: sum.splits list.splits prod.splits)

lemma plot_interpreter_cache:
  "persistence_diagrams (snd (plot_interpreter_text c i s)) = persistence_diagrams s"
  "persistence_diagrams (snd (plot_interpreter_image c i s)) = persistence_diagrams s"
  "persistence_diagrams (snd (plot_feature_importance c i s)) = persistence_diagrams s"
  "persistence_diagrams (snd (plot_attribution c i s)) = persistence_diagrams s"
  by (auto simp: plot_interpreter_text_def plot_interpreter_image_def
        plot_feature_importance_def plot_attribution_def action_defs Let_def
      split: sum.splits list.splits prod.splits)

lemma run_cache:
  "persistence_diagrams s = Some d \<Longrightarrow> persistence_diagrams (run c op s) = Some d"
  by (cases op)
     (simp_all add: plot_data_model_cache plot_activations_cache
        plot_persistence_diagrams_cache plot_decision_boundary_cache
        betti_plot_layers_cache plot_interpreter_cache)

lemma run_all_cache:
  "persistence_diagrams s = Some d \<Longrightarrow>
   persistence_diagrams (foldl (\<lambda>s op. run c op s) s ops) = Some d"
  by (induction ops arbitrary: s) (simp_all add: run_cache)

lemma plot_persistence_diagrams_cached:
  "persistence_diagrams s = Some d \<Longrightarrow>
   plot_persistence_diagrams c example s =
     (case stack (map (\<lambda>dg. plotly2tensor c (plot_diagram c dg)) d) of
        Inl e \<Rightarrow> (Inl e, s)
      | Inr features \<Rightarrow>
          (Inr (), s\<lparr>writer := writer s @
             [Add_images ''persistence_diagrams_of_activations'' features ''NHWC'', Flush]\<rparr>))"
  by (auto simp: plot_persistence_diagrams_def action_defs Let_def split: sum.splits)

lemma plot_persistence_diagrams_first:
  assumes "persistence_diagrams s = None"
    and "plot_persistence_diagrams c example s = (Inr (), s')"
  shows "\<exists>inputs. activation_calls s' = activation_calls s @ [inputs]
           \<and> persistence_diagrams s' =
               Some (persistence_diagrams_of_activations c (get_activations c inputs))"
  using assms
  by (auto simp: plot_persistence_diagrams_def action_defs Let_def
           split: sum.splits list.splits prod.splits if_splits)





lemma str_nat_nonempty: "str_nat n \<noteq> []"
  by (subst str_nat.simps) simp

lemma digit_inj: "a < 10 \<Longrightarrow> b < 10 \<Longrightarrow> (char_of (48 + a) :: char) = char_of (48 + b) \<Longrightarrow> a = (b::nat)"
proof -
  assume a: "a < 10" and b: "b < 10" and e: "(char_of (48 + a) :: char) = char_of (48 + b)"
  have "of_char (char_of (48 + a) :: char) = (of_char (char_of (48 + b) :: char) :: nat)"
    using e by simp
  then have "(48 + a) mod 256 = (48 + b) mod 256" by (simp add: of_char_of)
  then show ?thesis using a b by simp
qed

lemma str_nat_inj: "str_nat m = str_nat n \<Longrightarrow> m = n"
proof (induction m arbitrary: n rule: str_nat.induct)
  case (1 m)
  show ?case
  proof (cases "m < 10")
    case True
    show ?thesis
    proof (cases "n < 10")
      case n: True
      from "1.prems" True n have "(char_of (48 + m) :: char) = char_of (48 + n)"
        by (subst (asm) str_nat.simps, subst (asm) (2) str_nat.simps) simp
      then show ?thesis using True n by (rule digit_inj[rotated 2])
    next
      case False
      from "1.prems" True False have "[char_of (48 + m)] = str_nat (n div 10) @ [char_of (48 + n mod 10)]"
        by (subst (asm) str_nat.simps, subst (asm) (2) str_nat.simps) simp
      then show ?thesis using str_nat_nonempty[of "n div 10"] by (cases "str_nat (n div 10)") auto
    qed
  next
    case False
    show ?thesis
    proof (cases "n < 10")
      case True
      from "1.prems" True False have "str_nat (m div 10) @ [char_of (48 + m mod 10)] = [char_of (48 + n)]"
        by (subst (asm) str_nat.simps, subst (asm) (2) str_nat.simps) simp
      then show ?thesis using str_nat_nonempty[of "m div 10"] by (cases "str_nat (m div 10)") auto
    next
      case n: False
      from "1.prems" False n have "str_nat (m div 10) @ [char_of (48 + m mod 10)]
            = str_nat (n div 10) @ [char_of (48 + n mod 10)]"
        by (subst (asm) str_nat.simps, subst (asm) (2) str_nat.simps) simp
      then have e: "str_nat (m div 10) = str_nat (n div 10)"
        and d: "(char_of (48 + m mod 10) :: char) = char_of (48 + n mod 10)" by simp_all
      have "m div 10 = n div 10" using "1.IH"[OF False e] .
      moreover have "m mod 10 = n mod 10" using d by (intro digit_inj) simp_all
      ultimately show ?thesis by (metis div_mult_mod_eq)
    qed
  qed
qed

lemma view_rows:
  assumes "shape act \<noteq> []" "0 < hd (shape act)"
  shows "view_infer [hd (shape act)] [] act
         = Inr \<lparr>shape = [hd (shape act), numel act div hd (shape act)], data = data act\<rparr>"
proof -
  obtain n ns where sh: "shape act = n # ns" using assms(1) by (cases "shape act") auto
  then show ?thesis using assms(2) by (simp add: view_infer_def numel_def)
qed

lemma embed_activations_writes:
  assumes "\<forall>act \<in> set acts. shape act \<noteq> [] \<and> 0 < hd (shape act)"
  shows "embed_activations i acts labels s =
     (Inr (), s\<lparr>writer := writer s @ concat (map (\<lambda>(k, act).
        [Add_embedding \<lparr>shape = [hd (shape act), numel act div hd (shape act)], data = data act\<rparr>
           (Some (Tensors labels)) None (''activations_'' @ str_nat k) 0, Flush])
        (enumerate i acts))\<rparr>)"
  using assms
proof (induction acts arbitrary: i s)
  case Nil
  then show ?case by (simp add: return_def)
next
  case (Cons act acts)
  obtain n ns where sh: "shape act = n # ns" and n: "0 < n"
    using Cons.prems by (cases "shape act") auto
  have v: "view_infer [n] [] act
         = Inr \<lparr>shape = [n, numel act div n], data = data act\<rparr>"
    using view_rows[of act] sh n by simp
  have rest: "\<forall>act \<in> set acts. shape act \<noteq> [] \<and> 0 < hd (shape act)"
    using Cons.prems by simp
  show ?case
    by (simp add: sh v Cons.IH[OF rest] and_then_def attempt_def emit_def)
qed

section \<open>Properties of the methods\<close>

text \<open>
  Claim C2. Whatever non-null list \<^verbatim>\<open>betti_plot_layers\<close> receives as
  \<^verbatim>\<open>homology_dimension\<close>, the call does what it does for \<^verbatim>\<open>[0, 1]\<close>, and the
  figures it shows are those \<^verbatim>\<open>plot_betti_surfaces\<close> returns for the homology
  dimensions \<^verbatim>\<open>[0, 1]\<close>; for \<^verbatim>\<open>None\<close> they are those it returns for \<^verbatim>\<open>None\<close>.
\<close>

theorem betti_homology_dimension:
  assumes "betti_plot_layers c homology_dimension example s = (Inr (), s')"
  shows "betti_plot_layers c (map_option (\<lambda>_. [0, 1]) homology_dimension) example s = (Inr (), s')
       \<and> (\<exists>diagrams. persistence_diagrams s' = Some diagrams
            \<and> shown s' = shown s @
                 (case betti_curve c diagrams of (dgms, samplings) \<Rightarrow>
                    plot_betti_surfaces c dgms samplings
                      (case homology_dimension of None \<Rightarrow> None | Some _ \<Rightarrow> Some [0, 1])))"
  using assms
  by (cases homology_dimension)
     (auto simp: betti_plot_layers_def action_defs Let_def
           split: if_splits list.splits sum.splits prod.splits option.splits)

theorem betti_homology_dimension_witness:
  "fst (betti_plot_layers demo_collaborators (Some [2]) None (demo_visualiser 2)) = Inr ()
   \<and> shown (snd (betti_plot_layers demo_collaborators (Some [2]) None (demo_visualiser 2)))
       = [''dimension 0'', ''dimension 1'']"
proof -
  let ?r = "betti_plot_layers demo_collaborators (Some [2]) None (demo_visualiser 2)"
  have f: "fst ?r = Inr ()" by code_simp
  then have "?r = (Inr (), snd ?r)" by (simp add: prod_eq_iff)
  from betti_homology_dimension[OF this] obtain diagrams where
    "shown (snd ?r) = shown (demo_visualiser 2) @
       (case betti_curve demo_collaborators diagrams of (dgms, samplings) \<Rightarrow>
          plot_betti_surfaces demo_collaborators dgms samplings
            (case Some [2::int] of None \<Rightarrow> None | Some _ \<Rightarrow> Some [0, 1]))"
    by blast
  moreover have "str_int 0 = ''0''" "str_int 1 = ''1''" by code_simp+
  ultimately have "shown (snd ?r) = [''dimension 0'', ''dimension 1'']"
    by (simp add: demo_defs demo_collaborators_def)
  with f show ?thesis by simp
qed

text \<open>
  Claim C3. The cache \<^verbatim>\<open>persistence_diagrams\<close> is \<^verbatim>\<open>None\<close> after \<^verbatim>\<open>__init__\<close>.
  Once it holds a diagram set, no sequence of method calls changes it, whether the
  calls return or raise, and a call of \<^verbatim>\<open>plot_persistence_diagrams\<close> renders the
  stored set without a call of \<^verbatim>\<open>get_activations\<close>.
\<close>

theorem persistence_diagrams_cache:
  assumes "persistence_diagrams s = Some d"
  shows "persistence_diagrams (init loaders w :: ('a, 'f) visualiser) = None
       \<and> persistence_diagrams (foldl (\<lambda>s op. run c op s) s ops) = Some d
       \<and> persistence_diagrams (snd (plot_persistence_diagrams c example s)) = Some d
       \<and> activation_calls (snd (plot_persistence_diagrams c example s)) = activation_calls s
       \<and> plot_persistence_diagrams c example s =
           (case stack (map (\<lambda>dg. plotly2tensor c (plot_diagram c dg)) d) of
              Inl e \<Rightarrow> (Inl e, s)
            | Inr features \<Rightarrow>
                (Inr (), s\<lparr>writer := writer s @
                   [Add_images ''persistence_diagrams_of_activations'' features ''NHWC'',
                    Flush]\<rparr>))"
proof (intro conjI)
  show "persistence_diagrams (init loaders w :: ('a, 'f) visualiser) = None"
    by (simp add: init_def)
  show "persistence_diagrams (foldl (\<lambda>s op. run c op s) s ops) = Some d"
    using assms by (rule run_all_cache)
  show "persistence_diagrams (snd (plot_persistence_diagrams c example s)) = Some d"
    using assms by (rule plot_persistence_diagrams_cache)
  show "activation_calls (snd (plot_persistence_diagrams c example s)) = activation_calls s"
    using assms by (rule plot_persistence_diagrams_calls)
  show "plot_persistence_diagrams c example s =
           (case stack (map (\<lambda>dg. plotly2tensor c (plot_diagram c dg)) d) of
              Inl e \<Rightarrow> (Inl e, s)
            | Inr features \<Rightarrow>
                (Inr (), s\<lparr>writer := writer s @
                   [Add_images ''persistence_diagrams_of_activations'' features ''NHWC'',
                    Flush]\<rparr>))"
    using assms by (rule plot_persistence_diagrams_cached)
qed

theorem persistence_diagrams_cache_witness:
  "persistence_diagrams
     (snd (plot_persistence_diagrams demo_collaborators None (demo_visualiser 2))) \<noteq> None
   \<and> activation_calls
       (snd (plot_persistence_diagrams demo_collaborators None
          (snd (plot_persistence_diagrams demo_collaborators None (demo_visualiser 2)))))
     = [\<lparr>shape = [2, 2], data = [1, 2, 3, 4]\<rparr>]"
proof -
  let ?s1 = "snd (plot_persistence_diagrams demo_collaborators None (demo_visualiser 2))"
  have c: "persistence_diagrams ?s1 =
      Some [\<lparr>shape = [2, 2], data = [1, 2, 3, 4]\<rparr>, \<lparr>shape = [2, 2], data = [1, 2, 3, 4]\<rparr>]"
    by code_simp
  have a: "activation_calls ?s1 = [\<lparr>shape = [2, 2], data = [1, 2, 3, 4]\<rparr>]"
    by code_simp
  from persistence_diagrams_cache[OF c, of "[]" "[]" demo_collaborators "[]" None]
  have "activation_calls (snd (plot_persistence_diagrams demo_collaborators None ?s1))
        = activation_calls ?s1"
    by blast
  with c a show ?thesis by simp
qed






text \<open>
  Claim C8. When the inputs were sampled and stacked and every activation has a
  non-empty leading axis, \<^verbatim>\<open>plot_activations\<close> returns after one call of
  \<^verbatim>\<open>get_activations\<close>, and it has appended, for each layer \<open>i\<close> in order, one
  embedding record tagged \<^verbatim>\<open>"activations_" + str(i)\<close> followed by a flush; the tags
  are pairwise different.
\<close>

theorem plot_activations_records:
  assumes dl: "dataloaders s = loader # others"
    and loop: "activations_loop (batches loader) 0 [] [] = Inr (inputs, labels)"
    and st: "stack inputs = Inr batch"
    and wf: "\<forall>act \<in> set (get_activations c (to_example c example batch)).
               shape act \<noteq> [] \<and> 0 < hd (shape act)"
  shows "plot_activations c example s =
      (Inr (), s\<lparr>activation_calls := activation_calls s @ [to_example c example batch],
                 writer := writer s @ concat (map (\<lambda>(i, act).
           [Add_embedding \<lparr>shape = [hd (shape act), numel act div hd (shape act)], data = data act\<rparr>
              (Some (Tensors labels)) None (''activations_'' @ str_nat i) 0, Flush])
           (enumerate 0 (get_activations c (to_example c example batch))))\<rparr>)
    \<and> distinct (map (\<lambda>(i, act). ''activations_'' @ str_nat i)
          (enumerate 0 (get_activations c (to_example c example batch))))"
proof -
  let ?acts = "get_activations c (to_example c example batch)"
  have "inj (\<lambda>i. ''activations_'' @ str_nat i)"
    by (rule injI) (simp add: str_nat_inj)
  then have "distinct (map (\<lambda>i. ''activations_'' @ str_nat i) (map fst (enumerate 0 ?acts)))"
    by (simp add: distinct_map inj_on_subset[OF _ subset_UNIV])
  moreover have "map (\<lambda>(i, act). ''activations_'' @ str_nat i) (enumerate 0 ?acts)
      = map (\<lambda>i. ''activations_'' @ str_nat i) (map fst (enumerate 0 ?acts))"
    unfolding map_map by (rule map_cong) auto
  ultimately have d: "distinct (map (\<lambda>(i, act). ''activations_'' @ str_nat i) (enumerate 0 ?acts))"
    by (simp only:)
  have "plot_activations c example s =
      embed_activations 0 ?acts labels
        (s\<lparr>activation_calls := activation_calls s @ [to_example c example batch]\<rparr>)"
    using dl loop st
    by (simp add: plot_activations_def and_then_def attempt_def dataloader_0_def
          call_get_activations_def)
  also have "\<dots> = (Inr (),
      s\<lparr>activation_calls := activation_calls s @ [to_example c example batch],
        writer := writer s @ concat (map (\<lambda>(i, act).
           [Add_embedding \<lparr>shape = [hd (shape act), numel act div hd (shape act)], data = data act\<rparr>
              (Some (Tensors labels)) None (''activations_'' @ str_nat i) 0, Flush])
           (enumerate 0 ?acts))\<rparr>)"
    by (subst embed_activations_writes[OF wf]) simp
  finally show ?thesis using d by blast
qed

theorem plot_activations_records_witness:
  "plot_activations demo_collaborators None (demo_visualiser 2) =
     (Inr (), (demo_visualiser 2)
        \<lparr>activation_calls := [\<lparr>shape = [2, 2], data = [1, 2, 3, 4]\<rparr>],
         writer :=
           [Add_embedding \<lparr>shape = [2, 2], data = [1, 2, 3, 4]\<rparr>
              (Some (Tensors [\<lparr>shape = [], data = [5]\<rparr>, \<lparr>shape = [], data = [7]\<rparr>]))
              None ''activations_0'' 0,
            Flush,
            Add_embedding \<lparr>shape = [2, 2], data = [1, 2, 3, 4]\<rparr>
              (Some (Tensors [\<lparr>shape = [], data = [5]\<rparr>, \<lparr>shape = [], data = [7]\<rparr>]))
              None ''activations_1'' 0,
            Flush]\<rparr>)"
proof -
  have dl: "dataloaders (demo_visualiser 2) = demo_loader 2 # []"
    by (simp add: demo_defs)
  have loop: "activations_loop (batches (demo_loader 2)) 0 [] [] =
      Inr ([\<lparr>shape = [2], data = [1, 2]\<rparr>, \<lparr>shape = [2], data = [3, 4]\<rparr>],
           [\<lparr>shape = [], data = [5]\<rparr>, \<lparr>shape = [], data = [7]\<rparr>])"
    by code_simp
  have st: "stack [\<lparr>shape = [2], data = [1, 2]\<rparr>, \<lparr>shape = [2], data = [3, 4::int]\<rparr>]
      = Inr \<lparr>shape = [2, 2], data = [1, 2, 3, 4]\<rparr>"
    by code_simp
  have wf: "\<forall>act \<in> set (get_activations demo_collaborators
        (to_example demo_collaborators None \<lparr>shape = [2, 2], data = [1, 2, 3, 4]\<rparr>)).
               shape act \<noteq> [] \<and> 0 < hd (shape act)"
    by (simp add: demo_collaborators_def to_example_def)
  have acts: "get_activations demo_collaborators \<lparr>shape = [2, 2], data = [1, 2, 3, 4]\<rparr>
      = [\<lparr>shape = [2, 2], data = [1, 2, 3, 4]\<rparr>, \<lparr>shape = [2, 2], data = [1, 2, 3, 4]\<rparr>]"
    "to_example demo_collaborators None \<lparr>shape = [2, 2], data = [1, 2, 3, 4]\<rparr>
      = \<lparr>shape = [2, 2], data = [1, 2, 3, 4]\<rparr>"
    by (simp_all add: demo_collaborators_def to_example_def)
  have tags: "str_nat 0 = ''0''" "str_nat (Suc 0) = ''1''" by code_simp+
  have empty: "writer (demo_visualiser 2) = []" "activation_calls (demo_visualiser 2) = []"
    by (simp_all add: demo_defs)
  from plot_activations_records[OF dl loop st wf] show ?thesis
    by (simp add: acts numel_def tags empty)
qed

text \<open>
  Claim C9. With \<^verbatim>\<open>compact=True\<close>, on a loader whose first batch has a first sample
  of at least one axis, \<^verbatim>\<open>plot_decision_boundary\<close> builds the compactification with
  precision 0.1, 500 samples, epsilon 0.051 and 100 epochs, reduces its distance matrix
  with \<^verbatim>\<open>MDS(n_components=3, dissimilarity="precomputed")\<close>, appends the embedding
  and a flush, and returns the embedding, the distance matrix of shape (500, 500) and
  the labels.
\<close>

theorem plot_decision_boundary_compact:
  assumes "dataloaders s = loader # others"
    and "batches loader = (images, labels) # rest"
    and "getitem_0 images = Inr x0"
    and "shape x0 = n # ns"
  shows "\<exists>db d_final label_final.
      plot_decision_boundary c True s =
        (Inr (db, Some d_final, Some label_final),
         s\<lparr>writer := writer s @
              [Add_embedding db None None ''compactified_decision_boundary'' 0, Flush]\<rparr>)
    \<and> (d_final, label_final) = create_final_distance_matrix c
          \<lparr>precision = 1 / 10, n_samples = 500, epsilon = 51 / 1000,
           n_features = n, n_epochs = 100\<rparr>
    \<and> db = fit_transform c \<lparr>n_components = 3, dissimilarity = ''precomputed''\<rparr> d_final
    \<and> shape d_final = [500, 500]"
  using assms
  by (simp add: plot_decision_boundary_def action_defs Let_def
        create_final_distance_matrix_def shape_tabulate)

theorem plot_decision_boundary_compact_witness:
  "\<exists>db d_final label_final s'.
      plot_decision_boundary demo_collaborators True (demo_visualiser 1)
        = (Inr (db, Some d_final, Some label_final), s')
    \<and> shape d_final = [500, 500]"
proof -
  have dl: "dataloaders (demo_visualiser 1) = demo_loader 1 # []"
    by (simp add: demo_defs)
  have b: "batches (demo_loader 1) =
      (\<lparr>shape = [1, 2], data = [1, 2]\<rparr>, \<lparr>shape = [1], data = [5]\<rparr>) # []"
    by (simp add: demo_defs)
  have g: "getitem_0 \<lparr>shape = [1, 2], data = [1, 2::int]\<rparr> = Inr \<lparr>shape = [2], data = [1, 2]\<rparr>"
    by code_simp
  have sh: "shape \<lparr>shape = [2], data = [1, 2::int]\<rparr> = 2 # []" by simp
  from plot_decision_boundary_compact[OF dl b g sh, of demo_collaborators]
  show ?thesis by blast
qed

end
